theory Spec2Isabelle
  imports Main "HOL-Library.Sublist"
begin

section \<open>Python values\<close>

text \<open>
  A Python \<^verbatim>\<open>str\<close> is a sequence of Unicode code points; \<^verbatim>\<open>len\<close> and slicing count
  code points, so a string is a list of code points here (not of bytes). The ASCII
  literals of \<^verbatim>\<open>app.py\<close> are written with \<open>lit\<close>.
\<close>

type_synonym pystr = "nat list"

definition lit :: "string \<Rightarrow> pystr" where
  "lit s = map of_char s"

definition apostrophe :: pystr where
  "apostrophe = [39]"

text \<open>
  An exception raised by a Playwright, Flask or LangChain call: an instance of a subclass
  of \<^verbatim>\<open>Exception\<close> (Playwright's \<^verbatim>\<open>Error\<close> and \<^verbatim>\<open>TimeoutError\<close> are), carried by
  what \<^verbatim>\<open>str(e)\<close> gives. \<open>Inl e\<close> is a raise of \<open>e\<close>, \<open>Inr v\<close> a normal return of \<open>v\<close>.
\<close>

datatype exn = Exception (str: pystr)

type_synonym 'a result = "exn + 'a"

section \<open>The browser as the tools see it\<close>

text \<open>
  The calls the tools make on the module-level \<^verbatim>\<open>page\<close> object. \<open>'d\<close> is the state of the
  live browser (loaded document, focus, network); each call takes the page handle and the
  state, and gives back what it raised (or returned) and the state after it.
\<close>

type_synonym page_handle = nat

record 'd playwright =
  goto :: "page_handle \<Rightarrow> pystr \<Rightarrow> pystr \<Rightarrow> 'd \<Rightarrow> exn option \<times> 'd"
  locator_fill :: "page_handle \<Rightarrow> pystr \<Rightarrow> pystr \<Rightarrow> 'd \<Rightarrow> exn option \<times> 'd"
  keyboard_press :: "page_handle \<Rightarrow> pystr \<Rightarrow> 'd \<Rightarrow> exn option \<times> 'd"
  locator_click :: "page_handle \<Rightarrow> pystr \<Rightarrow> 'd \<Rightarrow> exn option \<times> 'd"
  wait_for_load_state :: "page_handle \<Rightarrow> pystr \<Rightarrow> 'd \<Rightarrow> exn option \<times> 'd"
  locator_inner_text :: "page_handle \<Rightarrow> pystr \<Rightarrow> 'd \<Rightarrow> pystr result \<times> 'd"

text \<open>Sequencing inside a \<^verbatim>\<open>try\<close> block: the first raise leaves the block.\<close>

definition and_then :: "exn option \<times> 'd \<Rightarrow> ('d \<Rightarrow> pystr result \<times> 'd) \<Rightarrow> pystr result \<times> 'd" where
  "and_then r k = (case r of (Some e, d) \<Rightarrow> (Inl e, d) | (None, d) \<Rightarrow> k d)"

text \<open>\<^verbatim>\<open>except Exception as e: return f"...{e}"\<close>: the handler turns a raise into a return.\<close>

definition except_return :: "pystr result \<times> 'd \<Rightarrow> pystr \<Rightarrow> pystr result \<times> 'd" where
  "except_return r pre =
     (case r of (Inl e, d) \<Rightarrow> (Inr (pre @ str e), d) | (Inr s, d) \<Rightarrow> (Inr s, d))"

definition not_running :: pystr where
  "not_running = lit ''Browser is not running.''"

section \<open>The tools\<close>

text \<open>
  Each tool reads the global \<^verbatim>\<open>page\<close> (\<open>None\<close> or a page object, which is truthy), so it
  takes the handle as \<open>p\<close>. The \<open>_try\<close> constant is the body of the tool's \<^verbatim>\<open>try\<close> block.
  The \<^verbatim>\<open>print\<close> calls write to the console only and are left out.
\<close>

definition google_search_try :: "'d playwright \<Rightarrow> page_handle \<Rightarrow> pystr \<Rightarrow> 'd \<Rightarrow> pystr result \<times> 'd" where
  \<open>google_search_try pw pg query d =
     and_then (goto pw pg (lit ''https://www.google.com'') (lit ''domcontentloaded'') d) (\<lambda>d1.
     and_then (locator_fill pw pg (lit ''textarea[name="q"]'') query d1) (\<lambda>d2.
     and_then (keyboard_press pw pg (lit ''Enter'') d2) (\<lambda>d3.
       (Inr (lit ''Successfully searched for '' @ apostrophe @ query @ apostrophe
             @ lit ''. The results are now on the screen.''), d3))))\<close>

definition google_search :: "'d playwright \<Rightarrow> pystr \<Rightarrow> page_handle option \<Rightarrow> 'd \<Rightarrow> pystr result \<times> 'd" where
  "google_search pw query p d =
     (case p of
        None \<Rightarrow> (Inr not_running, d)
      | Some pg \<Rightarrow> except_return (google_search_try pw pg query d) (lit ''Error during Google search: ''))"

definition navigate_to_url_try :: "'d playwright \<Rightarrow> page_handle \<Rightarrow> pystr \<Rightarrow> 'd \<Rightarrow> pystr result \<times> 'd" where
  "navigate_to_url_try pw pg url d =
     and_then (goto pw pg url (lit ''domcontentloaded'') d) (\<lambda>d1.
       (Inr (lit ''Successfully navigated to '' @ url @ lit ''.''), d1))"

definition navigate_to_url :: "'d playwright \<Rightarrow> pystr \<Rightarrow> page_handle option \<Rightarrow> 'd \<Rightarrow> pystr result \<times> 'd" where
  "navigate_to_url pw url p d =
     (case p of
        None \<Rightarrow> (Inr not_running, d)
      | Some pg \<Rightarrow> except_return (navigate_to_url_try pw pg url d) (lit ''Error navigating to url: ''))"

definition type_text_try :: "'d playwright \<Rightarrow> page_handle \<Rightarrow> pystr \<Rightarrow> pystr \<Rightarrow> 'd \<Rightarrow> pystr result \<times> 'd" where
  "type_text_try pw pg css_selector text d =
     and_then (locator_fill pw pg css_selector text d) (\<lambda>d1.
       (Inr (lit ''Successfully typed '' @ apostrophe @ text @ apostrophe
             @ lit '' into the element.''), d1))"

definition type_text :: "'d playwright \<Rightarrow> pystr \<Rightarrow> pystr \<Rightarrow> page_handle option \<Rightarrow> 'd \<Rightarrow> pystr result \<times> 'd" where
  "type_text pw css_selector text p d =
     (case p of
        None \<Rightarrow> (Inr not_running, d)
      | Some pg \<Rightarrow> except_return (type_text_try pw pg css_selector text d) (lit ''Error typing text: ''))"

definition click_element_try :: "'d playwright \<Rightarrow> page_handle \<Rightarrow> pystr \<Rightarrow> 'd \<Rightarrow> pystr result \<times> 'd" where
  "click_element_try pw pg css_selector d =
     and_then (locator_click pw pg css_selector d) (\<lambda>d1.
       (Inr (lit ''Successfully clicked the element.''), d1))"

definition click_element :: "'d playwright \<Rightarrow> pystr \<Rightarrow> page_handle option \<Rightarrow> 'd \<Rightarrow> pystr result \<times> 'd" where
  "click_element pw css_selector p d =
     (case p of
        None \<Rightarrow> (Inr not_running, d)
      | Some pg \<Rightarrow> except_return (click_element_try pw pg css_selector d) (lit ''Error clicking element: ''))"

definition read_current_page_content_try :: "'d playwright \<Rightarrow> page_handle \<Rightarrow> 'd \<Rightarrow> pystr result \<times> 'd" where
  "read_current_page_content_try pw pg d =
     and_then (wait_for_load_state pw pg (lit ''networkidle'') d) (\<lambda>d1.
       (case locator_inner_text pw pg (lit ''body'') d1 of
          (Inl e, d2) \<Rightarrow> (Inl e, d2)
        | (Inr content, d2) \<Rightarrow> (Inr (take 4000 content), d2)))"

definition read_current_page_content :: "'d playwright \<Rightarrow> page_handle option \<Rightarrow> 'd \<Rightarrow> pystr result \<times> 'd" where
  "read_current_page_content pw p d =
     (case p of
        None \<Rightarrow> (Inr not_running, d)
      | Some pg \<Rightarrow> except_return (read_current_page_content_try pw pg d)
                    (lit ''Could not get page content. Error: ''))"

text \<open>
  The toolbox \<^verbatim>\<open>tools\<close>, in the order of the source. A call carries the arguments the
  tool's signature asks for.
\<close>

datatype tool_call =
    GoogleSearch pystr
  | NavigateToUrl pystr
  | TypeText pystr pystr
  | ClickElement pystr
  | ReadCurrentPageContent

fun run_tool :: "'d playwright \<Rightarrow> tool_call \<Rightarrow> page_handle option \<Rightarrow> 'd \<Rightarrow> pystr result \<times> 'd" where
  "run_tool pw (GoogleSearch query) p d = google_search pw query p d"
| "run_tool pw (NavigateToUrl url) p d = navigate_to_url pw url p d"
| "run_tool pw (TypeText css_selector text) p d = type_text pw css_selector text p d"
| "run_tool pw (ClickElement css_selector) p d = click_element pw css_selector p d"
| "run_tool pw ReadCurrentPageContent p d = read_current_page_content pw p d"

text \<open>The \<^verbatim>\<open>try\<close> block of the tool a call names, and its \<^verbatim>\<open>except\<close> prefix.\<close>

fun tool_try :: "'d playwright \<Rightarrow> tool_call \<Rightarrow> page_handle \<Rightarrow> 'd \<Rightarrow> pystr result \<times> 'd" where
  "tool_try pw (GoogleSearch query) pg d = google_search_try pw pg query d"
| "tool_try pw (NavigateToUrl url) pg d = navigate_to_url_try pw pg url d"
| "tool_try pw (TypeText css_selector text) pg d = type_text_try pw pg css_selector text d"
| "tool_try pw (ClickElement css_selector) pg d = click_element_try pw pg css_selector d"
| "tool_try pw ReadCurrentPageContent pg d = read_current_page_content_try pw pg d"

fun error_prefix :: "tool_call \<Rightarrow> pystr" where
  "error_prefix (GoogleSearch query) = lit ''Error during Google search: ''"
| "error_prefix (NavigateToUrl url) = lit ''Error navigating to url: ''"
| "error_prefix (TypeText css_selector text) = lit ''Error typing text: ''"
| "error_prefix (ClickElement css_selector) = lit ''Error clicking element: ''"
| "error_prefix ReadCurrentPageContent = lit ''Could not get page content. Error: ''"

section \<open>The caller of the tools\<close>

text \<open>
  Modelled from the spec: the decision that the oracle's answer is parsed to (section 3,
  AgentDecision). The code that queries the oracle and parses its answer is LangChain's
  and not part of \<^verbatim>\<open>app.py\<close>. A decision to act names one of the five tools with an input
  of the shape the tool declares; answers that do not parse and names outside the tool
  set are not decisions of this type.
\<close>

datatype decision = Act tool_call | Finish pystr

text \<open>
  Modelled from the spec: the history of one run (section 3, HistoryStep), the ordered
  list of the actions taken, each with its input and the observation it gave.
\<close>

type_synonym history = "(tool_call \<times> pystr) list"

text \<open>
  Modelled from the spec: the terminal states of the loop (section 4.1), \<open>Done(answer)\<close>
  and \<open>Failed(error)\<close>.
\<close>

datatype terminal = Done pystr | Failed pystr

text \<open>
  Modelled from the spec: the agent loop (section 4.1), which \<^verbatim>\<open>app.py\<close> leaves to
  LangChain's \<^verbatim>\<open>AgentExecutor\<close>. Thinking asks the oracle for a decision on the history;
  Acting ends the run with \<open>Done\<close> on \<open>Finish\<close> and otherwise invokes the named tool, one
  of the tools above, on the global page handle \<open>p\<close>; Observing appends the step to the
  history and returns to Thinking. The first argument is the iteration bound, at which
  the run ends in \<open>Failed(iteration-limit-exceeded)\<close>. The spec has the loop catch any
  exception a tool raises and turn it into an observation, without giving the text:
  \<open>catch\<close> is that conversion when the loop has one. With \<open>None\<close> the loop has no handler
  of its own, and an exception that leaves a tool leaves the loop (\<open>Inl\<close>), which
  aborts the run.
\<close>

fun agent_loop ::
  "nat \<Rightarrow> (exn \<Rightarrow> pystr) option \<Rightarrow> (history \<Rightarrow> decision) \<Rightarrow> 'd playwright
     \<Rightarrow> page_handle option \<Rightarrow> history \<Rightarrow> 'd \<Rightarrow> terminal result \<times> history \<times> 'd" where
  "agent_loop 0 catch oracle pw p h d = (Inr (Failed (lit ''iteration-limit-exceeded'')), h, d)"
| "agent_loop (Suc n) catch oracle pw p h d =
     (case oracle h of
        Finish answer \<Rightarrow> (Inr (Done answer), h, d)
      | Act c \<Rightarrow>
          (case run_tool pw c p d of
             (Inr observation, d1) \<Rightarrow> agent_loop n catch oracle pw p (h @ [(c, observation)]) d1
           | (Inl e, d1) \<Rightarrow>
               (case catch of
                  None \<Rightarrow> (Inl e, h, d1)
                | Some describe \<Rightarrow> agent_loop n catch oracle pw p (h @ [(c, describe e)]) d1)))"

section \<open>The request and the JSON values it carries\<close>

text \<open>
  A Python \<^verbatim>\<open>float\<close>, which a JSON number with a fraction or an exponent parses to: the
  double \<open>m * 2 ^ e\<close>, an infinity with its sign, or NaN. Only its truth value is used.
\<close>

datatype pyfloat = Finite int int | Infinity bool | NaN

fun float_truthy :: "pyfloat \<Rightarrow> bool" where
  "float_truthy (Finite m e) = (m \<noteq> 0)"
| "float_truthy (Infinity negative) = True"
| "float_truthy NaN = True"

text \<open>
  What \<^verbatim>\<open>request.json\<close> parses to. A JSON object is the list of the items of the parsed
  \<^verbatim>\<open>dict\<close>.
\<close>

datatype json =
    JNull
  | JBool bool
  | JInt int
  | JFloat pyfloat
  | JStr pystr
  | JArr "json list"
  | JObj "(pystr \<times> json) list"

text \<open>Python's truth value of a parsed value, as \<^verbatim>\<open>not task\<close> tests it.\<close>

fun truthy :: "json \<Rightarrow> bool" where
  "truthy JNull = False"
| "truthy (JBool b) = b"
| "truthy (JInt n) = (n \<noteq> 0)"
| "truthy (JFloat x) = float_truthy x"
| "truthy (JStr s) = (s \<noteq> [])"
| "truthy (JArr xs) = (xs \<noteq> [])"
| "truthy (JObj kvs) = (kvs \<noteq> [])"

fun type_name :: "json \<Rightarrow> pystr" where
  "type_name JNull = lit ''NoneType''"
| "type_name (JBool b) = lit ''bool''"
| "type_name (JInt n) = lit ''int''"
| "type_name (JFloat x) = lit ''float''"
| "type_name (JStr s) = lit ''str''"
| "type_name (JArr xs) = lit ''list''"
| "type_name (JObj kvs) = lit ''dict''"

text \<open>
  \<^verbatim>\<open>data.get('task')\<close>: a dict gives the value or \<^verbatim>\<open>None\<close>; any other parsed value has no
  \<^verbatim>\<open>get\<close> and the call raises AttributeError.
\<close>

fun dict_get :: "json \<Rightarrow> pystr \<Rightarrow> json result" where
  "dict_get (JObj kvs) k = Inr (case map_of kvs k of None \<Rightarrow> JNull | Some v \<Rightarrow> v)"
| "dict_get v k =
     Inl (Exception (apostrophe @ type_name v @ apostrophe @ lit '' object has no attribute ''
                     @ apostrophe @ lit ''get'' @ apostrophe))"

section \<open>The process state and the task's surroundings\<close>

text \<open>
  A browser as a spy records it: whether it is connected, and how often \<^verbatim>\<open>close\<close> was
  called on it. The world holds the module-level \<^verbatim>\<open>page\<close> (the handle is the index of the
  browser the page belongs to), every browser launched so far, and how often
  \<^verbatim>\<open>agent_executor.invoke\<close> was entered.
\<close>

record browser =
  connected :: bool
  close_calls :: nat

record world =
  page :: "page_handle option"
  browsers :: "browser list"
  invoke_calls :: nat

definition initial_world :: world where
  "initial_world = \<lparr>page = None, browsers = [], invoke_calls = 0\<rparr>"

text \<open>
  What the collaborators do during one task: whether \<^verbatim>\<open>sync_playwright()\<close>, the launch,
  \<^verbatim>\<open>new_context\<close> and \<^verbatim>\<open>new_page\<close> raise; what \<^verbatim>\<open>agent_executor.invoke\<close> (LangChain's
  executor, built with \<^verbatim>\<open>handle_parsing_errors=True\<close> and no other option) raises or gives
  as \<^verbatim>\<open>result['output']\<close>; and whether the browser (launched with a window,
  \<^verbatim>\<open>headless=False\<close>) died or was closed by hand before the \<^verbatim>\<open>finally\<close> clause runs.
\<close>

record env =
  playwright_start :: "exn option"
  launch :: "exn option"
  new_context :: "exn option"
  new_page :: "exn option"
  invoke :: "json \<Rightarrow> pystr result"
  crashed :: bool

definition launch_browser :: "world \<Rightarrow> page_handle \<times> world" where
  "launch_browser w =
     (length (browsers w), w\<lparr>browsers := browsers w @ [\<lparr>connected = True, close_calls = 0\<rparr>]\<rparr>)"

text \<open>
  The methods of the local \<^verbatim>\<open>browser\<close> that the \<^verbatim>\<open>finally\<close> clause uses. The handle is
  always the index \<open>launch_browser\<close> gave, so it is in range; \<^verbatim>\<open>close\<close> is taken to return.
\<close>

definition is_connected :: "page_handle \<Rightarrow> world \<Rightarrow> bool" where
  "is_connected b w = (b < length (browsers w) \<and> connected (browsers w ! b))"

definition disconnect :: "page_handle \<Rightarrow> world \<Rightarrow> world" where
  "disconnect b w = w\<lparr>browsers := (browsers w)[b := (browsers w ! b)\<lparr>connected := False\<rparr>]\<rparr>"

definition close :: "page_handle \<Rightarrow> world \<Rightarrow> world" where
  "close b w =
     w\<lparr>browsers := (browsers w)[b := (browsers w ! b)
          \<lparr>connected := False, close_calls := Suc (close_calls (browsers w ! b))\<rparr>]\<rparr>"

section \<open>The entry point\<close>

text \<open>
  The \<^verbatim>\<open>try\<close> block of \<^verbatim>\<open>execute_task\<close>. It gives what the block raised or the agent's
  output, the local \<^verbatim>\<open>browser\<close> (\<open>None\<close> while the name is not in \<^verbatim>\<open>locals()\<close>), and the
  world. The only assignment to the global \<^verbatim>\<open>page\<close> of the whole program is here.
\<close>

definition try_block :: "env \<Rightarrow> json \<Rightarrow> world \<Rightarrow> pystr result \<times> page_handle option \<times> world" where
  "try_block ev task w =
     (case launch ev of
        Some e \<Rightarrow> (Inl e, None, w)
      | None \<Rightarrow>
          (case launch_browser w of (b, w1) \<Rightarrow>
            (case new_context ev of
               Some e \<Rightarrow> (Inl e, Some b, w1)
             | None \<Rightarrow>
                 (case new_page ev of
                    Some e \<Rightarrow> (Inl e, Some b, w1)
                  | None \<Rightarrow>
                      (let w2 = w1\<lparr>page := Some b\<rparr>;
                           w3 = w2\<lparr>invoke_calls := Suc (invoke_calls w2)\<rparr>
                       in (invoke ev task, Some b, w3))))))"

text \<open>The browser's fate between its launch and the \<^verbatim>\<open>finally\<close> clause.\<close>

definition fate :: "env \<Rightarrow> page_handle option \<Rightarrow> world \<Rightarrow> world" where
  "fate ev browser w =
     (case browser of
        None \<Rightarrow> w
      | Some b \<Rightarrow> if crashed ev then disconnect b w else w)"

text \<open>
  \<^verbatim>\<open>finally: if 'browser' in locals() and browser.is_connected(): browser.close()\<close>
\<close>

definition finally_block :: "page_handle option \<Rightarrow> world \<Rightarrow> world" where
  "finally_block browser w =
     (case browser of
        None \<Rightarrow> w
      | Some b \<Rightarrow> if is_connected b w then close b w else w)"

text \<open>
  What the entry point gives back: the JSON body with its status, or an exception that
  leaves the function (Flask then answers). \<open>request_json\<close> is what reading \<^verbatim>\<open>request.json\<close>
  raises or parses. The console output and \<^verbatim>\<open>time.sleep(5)\<close> are left out.
\<close>

datatype response = Response json nat | Propagated exn

definition execute_task :: "env \<Rightarrow> json result \<Rightarrow> world \<Rightarrow> response \<times> world" where
  "execute_task ev request_json w =
     (case request_json of
        Inl e \<Rightarrow> (Propagated e, w)
      | Inr data \<Rightarrow>
          (case dict_get data (lit ''task'') of
             Inl e \<Rightarrow> (Propagated e, w)
           | Inr task \<Rightarrow>
               if \<not> truthy task
               then (Response (JObj [(lit ''error'', JStr (lit ''No task provided''))]) 400, w)
               else
                 (case playwright_start ev of
                    Some e \<Rightarrow> (Propagated e, w)
                  | None \<Rightarrow>
                      (case try_block ev task w of (r, browser, w1) \<Rightarrow>
                        (let w2 = finally_block browser (fate ev browser w1) in
                         (case r of
                            Inr output \<Rightarrow> (Response (JObj [(lit ''result'', JStr output)]) 200, w2)
                          | Inl e \<Rightarrow> (Response (JObj [(lit ''error'', JStr (str e))]) 500, w2)))))))"

text \<open>The server handles one request after the other, each with its own surroundings.\<close>

fun run_tasks :: "(env \<times> json result) list \<Rightarrow> world \<Rightarrow> world" where
  "run_tasks [] w = w"
| "run_tasks ((ev, request_json) # ts) w = run_tasks ts (snd (execute_task ev request_json w))"

section \<open>Concrete surroundings\<close>

text \<open>A browser where every call returns and the body text has 10000 characters.\<close>

definition big_page :: "unit playwright" where
  "big_page =
     \<lparr>goto = (\<lambda>pg url wait_until d. (None, d)),
      locator_fill = (\<lambda>pg css_selector text d. (None, d)),
      keyboard_press = (\<lambda>pg key d. (None, d)),
      locator_click = (\<lambda>pg css_selector d. (None, d)),
      wait_for_load_state = (\<lambda>pg state d. (None, d)),
      locator_inner_text = (\<lambda>pg css_selector d. (Inr (replicate 10000 120), d))\<rparr>"

text \<open>A browser where every call raises, with the given text.\<close>

definition broken_page :: "pystr \<Rightarrow> unit playwright" where
  "broken_page msg =
     \<lparr>goto = (\<lambda>pg url wait_until d. (Some (Exception msg), d)),
      locator_fill = (\<lambda>pg css_selector text d. (Some (Exception msg), d)),
      keyboard_press = (\<lambda>pg key d. (Some (Exception msg), d)),
      locator_click = (\<lambda>pg css_selector d. (Some (Exception msg), d)),
      wait_for_load_state = (\<lambda>pg state d. (Some (Exception msg), d)),
      locator_inner_text = (\<lambda>pg css_selector d. (Inl (Exception msg), d))\<rparr>"

definition timeout_text :: pystr where
  "timeout_text = lit ''Timeout 30000ms exceeded.''"

text \<open>
  A browser whose state counts the Playwright calls made so far: the call made in state
  \<open>k\<close> raises with the given text, every other call returns.
\<close>

definition flaky :: "nat \<Rightarrow> pystr \<Rightarrow> nat playwright" where
  "flaky k msg =
     \<lparr>goto = (\<lambda>pg url wait_until d. (if d = k then Some (Exception msg) else None, d + 1)),
      locator_fill = (\<lambda>pg css_selector text d. (if d = k then Some (Exception msg) else None, d + 1)),
      keyboard_press = (\<lambda>pg key d. (if d = k then Some (Exception msg) else None, d + 1)),
      locator_click = (\<lambda>pg css_selector d. (if d = k then Some (Exception msg) else None, d + 1)),
      wait_for_load_state = (\<lambda>pg state d. (if d = k then Some (Exception msg) else None, d + 1)),
      locator_inner_text = (\<lambda>pg css_selector d.
        (if d = k then Inl (Exception msg) else Inr (lit ''Hello''), d + 1))\<rparr>"

text \<open>An oracle that clicks once and gives up whatever it then observes.\<close>

definition click_then_give_up :: "history \<Rightarrow> decision" where
  "click_then_give_up h =
     (if h = [] then Act (ClickElement (lit ''#go'')) else Finish (lit ''I could not click.''))"

text \<open>A task where every collaborator returns and the agent answers with the given text.\<close>

definition calm :: "pystr \<Rightarrow> env" where
  "calm answer =
     \<lparr>playwright_start = None, launch = None, new_context = None, new_page = None,
      invoke = (\<lambda>task. Inr answer), crashed = False\<rparr>"

text \<open>The same, but the agent's call raises.\<close>

definition agent_raises :: "pystr \<Rightarrow> env" where
  "agent_raises msg = (calm [])\<lparr>invoke := (\<lambda>task. Inl (Exception msg))\<rparr>"

text \<open>The same, but \<^verbatim>\<open>browser.new_context()\<close> raises, after the launch.\<close>

definition context_fails :: "pystr \<Rightarrow> env" where
  "context_fails msg = (calm [])\<lparr>new_context := Some (Exception msg)\<rparr>"

text \<open>
  A task during which the browser window is closed by hand (or the browser dies): the
  agent still answers, and \<^verbatim>\<open>browser.is_connected()\<close> is false in the \<^verbatim>\<open>finally\<close> clause.
\<close>

definition window_closed :: "pystr \<Rightarrow> env" where
  "window_closed answer = (calm answer)\<lparr>crashed := True\<rparr>"

section \<open>The state between two tasks\<close>

text \<open>The browser a task leaves behind: not connected, closed by the task unless it died.\<close>

definition closed_browser :: "env \<Rightarrow> browser" where
  "closed_browser ev = \<lparr>connected = False, close_calls = (if crashed ev then 0 else 1)\<rparr>"

text \<open>
  Between two tasks no browser is connected, and the page handle, when set, is the page of
  a browser that was launched.
\<close>

definition settled :: "world \<Rightarrow> bool" where
  "settled w =
     (list_all (\<lambda>br. \<not> connected br) (browsers w) \<and>
      (case page w of None \<Rightarrow> True | Some b \<Rightarrow> b < length (browsers w)))"

section \<open>Results about the tools\<close>

lemmas tool_defs = google_search_def navigate_to_url_def type_text_def
  click_element_def read_current_page_content_def

lemma length_lit: "length (lit s) = length s"
  by (simp add: lit_def)

lemma and_then_None: "and_then (None, d) k = k d"
  by (simp add: and_then_def)

lemma and_then_Some: "and_then (Some e, d) k = (Inl e, d)"
  by (simp add: and_then_def)

lemma and_then_raises:
  "and_then r k = (Inl e, d') \<longleftrightarrow>
     r = (Some e, d') \<or> (\<exists>d1. r = (None, d1) \<and> k d1 = (Inl e, d'))"
  by (cases r; cases "fst r") (auto simp: and_then_def)

lemma except_return_Inl: "except_return (Inl e, d) pre = (Inr (pre @ str e), d)"
  by (simp add: except_return_def)

lemma except_return_Inr: "except_return (Inr s, d) pre = (Inr s, d)"
  by (simp add: except_return_def)

lemma except_return_returns: "\<exists>s d'. except_return r pre = (Inr s, d')"
  by (cases r; cases "fst r") (auto simp: except_return_def)

lemma run_tool_unset: "run_tool pw c None d = (Inr not_running, d)"
  by (cases c) (simp_all add: tool_defs)

lemma run_tool_set:
  "run_tool pw c (Some pg) d = except_return (tool_try pw c pg d) (error_prefix c)"
  by (cases c) (simp_all add: tool_defs)

subsection \<open>The guard on the page handle\<close>

text \<open>
  Claim C5. Whichever tool is called and whatever its arguments, when the global page
  handle is unset the tool returns the text "Browser is not running." as a normal result
  and makes no call on a page: the browser state is the one it was given.
\<close>

theorem tool_without_page_reports_not_running:
  "run_tool pw c None d = (Inr (lit ''Browser is not running.''), d)"
  by (cases c) (simp_all add: tool_defs not_running_def)

subsection \<open>A raise inside a tool\<close>

text \<open>A \<^verbatim>\<open>try\<close> block raises exactly when one of its Playwright calls does.\<close>

lemma google_search_try_raises:
  \<open>google_search_try pw pg query d = (Inl e, d') \<longleftrightarrow>
     goto pw pg (lit ''https://www.google.com'') (lit ''domcontentloaded'') d = (Some e, d') \<or>
     (\<exists>d1. goto pw pg (lit ''https://www.google.com'') (lit ''domcontentloaded'') d = (None, d1) \<and>
        (locator_fill pw pg (lit ''textarea[name="q"]'') query d1 = (Some e, d') \<or>
         (\<exists>d2. locator_fill pw pg (lit ''textarea[name="q"]'') query d1 = (None, d2) \<and>
            keyboard_press pw pg (lit ''Enter'') d2 = (Some e, d'))))\<close>
  by (simp add: google_search_try_def and_then_raises)

lemma navigate_to_url_try_raises:
  "navigate_to_url_try pw pg url d = (Inl e, d') \<longleftrightarrow>
     goto pw pg url (lit ''domcontentloaded'') d = (Some e, d')"
  by (simp add: navigate_to_url_try_def and_then_raises)

lemma type_text_try_raises:
  "type_text_try pw pg css_selector text d = (Inl e, d') \<longleftrightarrow>
     locator_fill pw pg css_selector text d = (Some e, d')"
  by (simp add: type_text_try_def and_then_raises)

lemma click_element_try_raises:
  "click_element_try pw pg css_selector d = (Inl e, d') \<longleftrightarrow>
     locator_click pw pg css_selector d = (Some e, d')"
  by (simp add: click_element_try_def and_then_raises)

lemma slice_raises:
  "(case r of (Inl e, d2) \<Rightarrow> (Inl e, d2) | (Inr content, d2) \<Rightarrow> (Inr (take 4000 content), d2))
     = (Inl e, d') \<longleftrightarrow> r = (Inl e, d')"
  by (cases r; cases "fst r") auto

lemma read_current_page_content_try_raises:
  "read_current_page_content_try pw pg d = (Inl e, d') \<longleftrightarrow>
     wait_for_load_state pw pg (lit ''networkidle'') d = (Some e, d') \<or>
     (\<exists>d1. wait_for_load_state pw pg (lit ''networkidle'') d = (None, d1) \<and>
        locator_inner_text pw pg (lit ''body'') d1 = (Inl e, d'))"
  by (simp add: read_current_page_content_try_def and_then_raises slice_raises)

lemma raise_reported:
  "tool_try pw c pg d = (Inl e, d1) \<Longrightarrow>
     run_tool pw c (Some pg) d = (Inr (error_prefix c @ str e), d1)"
  by (simp add: run_tool_set except_return_Inl)

lemma run_tool_returns: "\<exists>s d'. run_tool pw c p d = (Inr s, d')"
proof (cases p)
  case None
  then show ?thesis by (simp add: run_tool_unset)
next
  case (Some pg)
  then show ?thesis by (simp add: run_tool_set except_return_returns)
qed

text \<open>The loop is never left by an exception: every tool call gives it an observation.\<close>

lemma agent_loop_not_aborted: "\<exists>t h' d'. agent_loop n catch oracle pw p h d = (Inr t, h', d')"
proof (induction n arbitrary: h d)
  case 0
  show ?case by simp
next
  case (Suc n)
  show ?case
  proof (cases "oracle h")
    case (Finish answer)
    then show ?thesis by simp
  next
    case (Act c)
    from run_tool_returns [of pw c p d] obtain s d1 where r: "run_tool pw c p d = (Inr s, d1)"
      by blast
    from Suc.IH obtain t h' d' where
      "agent_loop n catch oracle pw p (h @ [(c, s)]) d1 = (Inr t, h', d')"
      by blast
    with Act r show ?thesis by simp
  qed
qed

lemma agent_loop_observes:
  assumes "oracle h = Act c" and "run_tool pw c p d = (Inr obs, d1)"
  shows "agent_loop (Suc n) catch oracle pw p h d = agent_loop n catch oracle pw p (h @ [(c, obs)]) d1"
  using assms by simp

text \<open>
  Claim C4. Every call of every tool returns a text and never raises, with the page
  handle set or unset. For each of the five tools and each Playwright call in its \<^verbatim>\<open>try\<close>
  block: when that call raises \<open>e\<close> (the calls before it having returned), the tool
  returns its error text followed by \<open>str(e)\<close>, with the browser in the state the raising
  call left. The loop that invokes the tools is therefore never aborted, for every oracle
  and every bound, also when it has no handler of its own and an exception leaving a tool
  would abort it: it ends in a terminal state; and after a tool call it goes on with the
  observation, the failure text included, appended to the history.
\<close>

theorem tool_raise_becomes_observation:
  \<open>(\<exists>s d'. run_tool pw c p d = (Inr s, d')) \<and>
   (goto pw pg (lit ''https://www.google.com'') (lit ''domcontentloaded'') d = (Some e, da) \<longrightarrow>
      google_search pw query (Some pg) d =
        (Inr (lit ''Error during Google search: '' @ str e), da)) \<and>
   (goto pw pg (lit ''https://www.google.com'') (lit ''domcontentloaded'') d = (None, da) \<and>
    locator_fill pw pg (lit ''textarea[name="q"]'') query da = (Some e, db) \<longrightarrow>
      google_search pw query (Some pg) d =
        (Inr (lit ''Error during Google search: '' @ str e), db)) \<and>
   (goto pw pg (lit ''https://www.google.com'') (lit ''domcontentloaded'') d = (None, da) \<and>
    locator_fill pw pg (lit ''textarea[name="q"]'') query da = (None, db) \<and>
    keyboard_press pw pg (lit ''Enter'') db = (Some e, dc) \<longrightarrow>
      google_search pw query (Some pg) d =
        (Inr (lit ''Error during Google search: '' @ str e), dc)) \<and>
   (goto pw pg url (lit ''domcontentloaded'') d = (Some e, da) \<longrightarrow>
      navigate_to_url pw url (Some pg) d =
        (Inr (lit ''Error navigating to url: '' @ str e), da)) \<and>
   (locator_fill pw pg css_selector typed d = (Some e, da) \<longrightarrow>
      type_text pw css_selector typed (Some pg) d =
        (Inr (lit ''Error typing text: '' @ str e), da)) \<and>
   (locator_click pw pg css_selector d = (Some e, da) \<longrightarrow>
      click_element pw css_selector (Some pg) d =
        (Inr (lit ''Error clicking element: '' @ str e), da)) \<and>
   (wait_for_load_state pw pg (lit ''networkidle'') d = (Some e, da) \<longrightarrow>
      read_current_page_content pw (Some pg) d =
        (Inr (lit ''Could not get page content. Error: '' @ str e), da)) \<and>
   (wait_for_load_state pw pg (lit ''networkidle'') d = (None, da) \<and>
    locator_inner_text pw pg (lit ''body'') da = (Inl e, db) \<longrightarrow>
      read_current_page_content pw (Some pg) d =
        (Inr (lit ''Could not get page content. Error: '' @ str e), db)) \<and>
   (\<exists>t h' d'. agent_loop n catch decide pw p h d = (Inr t, h', d')) \<and>
   (decide h = Act c \<and> run_tool pw c p d = (Inr obs, da) \<longrightarrow>
      agent_loop (Suc n) catch decide pw p h d = agent_loop n catch decide pw p (h @ [(c, obs)]) da)\<close>
proof (intro conjI impI)
  show "\<exists>s d'. run_tool pw c p d = (Inr s, d')"
    by (rule run_tool_returns)
next
  assume "goto pw pg (lit ''https://www.google.com'') (lit ''domcontentloaded'') d = (Some e, da)"
  then have "tool_try pw (GoogleSearch query) pg d = (Inl e, da)"
    by (simp add: google_search_try_raises)
  from raise_reported [OF this]
  show "google_search pw query (Some pg) d = (Inr (lit ''Error during Google search: '' @ str e), da)"
    by simp
next
  assume \<open>goto pw pg (lit ''https://www.google.com'') (lit ''domcontentloaded'') d = (None, da) \<and>
    locator_fill pw pg (lit ''textarea[name="q"]'') query da = (Some e, db)\<close>
  then have "tool_try pw (GoogleSearch query) pg d = (Inl e, db)"
    by (simp add: google_search_try_raises)
  from raise_reported [OF this]
  show "google_search pw query (Some pg) d = (Inr (lit ''Error during Google search: '' @ str e), db)"
    by simp
next
  assume \<open>goto pw pg (lit ''https://www.google.com'') (lit ''domcontentloaded'') d = (None, da) \<and>
    locator_fill pw pg (lit ''textarea[name="q"]'') query da = (None, db) \<and>
    keyboard_press pw pg (lit ''Enter'') db = (Some e, dc)\<close>
  then have "tool_try pw (GoogleSearch query) pg d = (Inl e, dc)"
    by (simp add: google_search_try_raises)
  from raise_reported [OF this]
  show "google_search pw query (Some pg) d = (Inr (lit ''Error during Google search: '' @ str e), dc)"
    by simp
next
  assume "goto pw pg url (lit ''domcontentloaded'') d = (Some e, da)"
  then have "tool_try pw (NavigateToUrl url) pg d = (Inl e, da)"
    by (simp add: navigate_to_url_try_raises)
  from raise_reported [OF this]
  show "navigate_to_url pw url (Some pg) d = (Inr (lit ''Error navigating to url: '' @ str e), da)"
    by simp
next
  assume "locator_fill pw pg css_selector typed d = (Some e, da)"
  then have "tool_try pw (TypeText css_selector typed) pg d = (Inl e, da)"
    by (simp add: type_text_try_raises)
  from raise_reported [OF this]
  show "type_text pw css_selector typed (Some pg) d = (Inr (lit ''Error typing text: '' @ str e), da)"
    by simp
next
  assume "locator_click pw pg css_selector d = (Some e, da)"
  then have "tool_try pw (ClickElement css_selector) pg d = (Inl e, da)"
    by (simp add: click_element_try_raises)
  from raise_reported [OF this]
  show "click_element pw css_selector (Some pg) d = (Inr (lit ''Error clicking element: '' @ str e), da)"
    by simp
next
  assume "wait_for_load_state pw pg (lit ''networkidle'') d = (Some e, da)"
  then have "tool_try pw ReadCurrentPageContent pg d = (Inl e, da)"
    by (simp add: read_current_page_content_try_raises)
  from raise_reported [OF this]
  show "read_current_page_content pw (Some pg) d =
      (Inr (lit ''Could not get page content. Error: '' @ str e), da)"
    by simp
next
  assume "wait_for_load_state pw pg (lit ''networkidle'') d = (None, da) \<and>
    locator_inner_text pw pg (lit ''body'') da = (Inl e, db)"
  then have "tool_try pw ReadCurrentPageContent pg d = (Inl e, db)"
    by (simp add: read_current_page_content_try_raises)
  from raise_reported [OF this]
  show "read_current_page_content pw (Some pg) d =
      (Inr (lit ''Could not get page content. Error: '' @ str e), db)"
    by simp
next
  show "\<exists>t h' d'. agent_loop n catch decide pw p h d = (Inr t, h', d')"
    by (rule agent_loop_not_aborted)
next
  assume "decide h = Act c \<and> run_tool pw c p d = (Inr obs, da)"
  then show "agent_loop (Suc n) catch decide pw p h d = agent_loop n catch decide pw p (h @ [(c, obs)]) da"
    by (simp add: agent_loop_observes)
qed



theorem tool_raise_becomes_observation_witness:
  \<open>goto (flaky 0 timeout_text) 0 (lit ''https://www.google.com'') (lit ''domcontentloaded'') 0
     = (Some (Exception timeout_text), 1) \<and>
   google_search (flaky 0 timeout_text) (lit ''cats'') (Some 0) 0
     = (Inr (lit ''Error during Google search: '' @ timeout_text), 1) \<and>
   goto (flaky 1 timeout_text) 0 (lit ''https://www.google.com'') (lit ''domcontentloaded'') 0
     = (None, 1) \<and>
   locator_fill (flaky 1 timeout_text) 0 (lit ''textarea[name="q"]'') (lit ''cats'') 1
     = (Some (Exception timeout_text), 2) \<and>
   google_search (flaky 1 timeout_text) (lit ''cats'') (Some 0) 0
     = (Inr (lit ''Error during Google search: '' @ timeout_text), 2) \<and>
   goto (flaky 2 timeout_text) 0 (lit ''https://www.google.com'') (lit ''domcontentloaded'') 0
     = (None, 1) \<and>
   locator_fill (flaky 2 timeout_text) 0 (lit ''textarea[name="q"]'') (lit ''cats'') 1
     = (None, 2) \<and>
   keyboard_press (flaky 2 timeout_text) 0 (lit ''Enter'') 2
     = (Some (Exception timeout_text), 3) \<and>
   google_search (flaky 2 timeout_text) (lit ''cats'') (Some 0) 0
     = (Inr (lit ''Error during Google search: '' @ timeout_text), 3) \<and>
   goto (flaky 0 timeout_text) 0 (lit ''https://example.org/'') (lit ''domcontentloaded'') 0
     = (Some (Exception timeout_text), 1) \<and>
   navigate_to_url (flaky 0 timeout_text) (lit ''https://example.org/'') (Some 0) 0
     = (Inr (lit ''Error navigating to url: '' @ timeout_text), 1) \<and>
   locator_fill (flaky 0 timeout_text) 0 (lit ''#go'') (lit ''Ada'') 0
     = (Some (Exception timeout_text), 1) \<and>
   type_text (flaky 0 timeout_text) (lit ''#go'') (lit ''Ada'') (Some 0) 0
     = (Inr (lit ''Error typing text: '' @ timeout_text), 1) \<and>
   locator_click (flaky 0 timeout_text) 0 (lit ''#go'') 0
     = (Some (Exception timeout_text), 1) \<and>
   click_element (flaky 0 timeout_text) (lit ''#go'') (Some 0) 0
     = (Inr (lit ''Error clicking element: '' @ timeout_text), 1) \<and>
   wait_for_load_state (flaky 0 timeout_text) 0 (lit ''networkidle'') 0
     = (Some (Exception timeout_text), 1) \<and>
   read_current_page_content (flaky 0 timeout_text) (Some 0) 0
     = (Inr (lit ''Could not get page content. Error: '' @ timeout_text), 1) \<and>
   wait_for_load_state (flaky 1 timeout_text) 0 (lit ''networkidle'') 0 = (None, 1) \<and>
   locator_inner_text (flaky 1 timeout_text) 0 (lit ''body'') 1
     = (Inl (Exception timeout_text), 2) \<and>
   read_current_page_content (flaky 1 timeout_text) (Some 0) 0
     = (Inr (lit ''Could not get page content. Error: '' @ timeout_text), 2) \<and>
   click_then_give_up [] = Act (ClickElement (lit ''#go'')) \<and>
   run_tool (flaky 0 timeout_text) (ClickElement (lit ''#go'')) (Some 0) 0
     = (Inr (lit ''Error clicking element: '' @ timeout_text), 1) \<and>
   agent_loop 3 None click_then_give_up (flaky 0 timeout_text) (Some 0) [] 0
     = agent_loop 2 None click_then_give_up (flaky 0 timeout_text) (Some 0)
         [(ClickElement (lit ''#go''), lit ''Error clicking element: '' @ timeout_text)] 1 \<and>
   agent_loop 2 None click_then_give_up (flaky 0 timeout_text) (Some 0)
         [(ClickElement (lit ''#go''), lit ''Error clicking element: '' @ timeout_text)] 1
     = (Inr (Done (lit ''I could not click.'')),
        [(ClickElement (lit ''#go''), lit ''Error clicking element: '' @ timeout_text)], 1)\<close>
proof -
  note at0 = tool_raise_becomes_observation
    [where pw = "flaky 0 timeout_text" and pg = 0 and d = 0 and e = "Exception timeout_text"
       and da = 1 and query = "lit ''cats''" and url = "lit ''https://example.org/''"
       and css_selector = "lit ''#go''" and typed = "lit ''Ada''"
       and c = "ClickElement (lit ''#go'')" and p = "Some 0" and catch = None and decide = click_then_give_up
       and h = "[]" and n = 2 and obs = "lit ''Error clicking element: '' @ timeout_text"]
  note at1 = tool_raise_becomes_observation
    [where pw = "flaky 1 timeout_text" and pg = 0 and d = 0 and e = "Exception timeout_text"
       and da = 1 and db = 2 and query = "lit ''cats''"]
  note at2 = tool_raise_becomes_observation
    [where pw = "flaky 2 timeout_text" and pg = 0 and d = 0 and e = "Exception timeout_text"
       and da = 1 and db = 2 and dc = 3 and query = "lit ''cats''"]
  have calls0:
    "goto (flaky 0 timeout_text) 0 (lit ''https://www.google.com'') (lit ''domcontentloaded'') 0
       = (Some (Exception timeout_text), 1)"
    "goto (flaky 0 timeout_text) 0 (lit ''https://example.org/'') (lit ''domcontentloaded'') 0
       = (Some (Exception timeout_text), 1)"
    "locator_fill (flaky 0 timeout_text) 0 (lit ''#go'') (lit ''Ada'') 0
       = (Some (Exception timeout_text), 1)"
    "locator_click (flaky 0 timeout_text) 0 (lit ''#go'') 0 = (Some (Exception timeout_text), 1)"
    "wait_for_load_state (flaky 0 timeout_text) 0 (lit ''networkidle'') 0
       = (Some (Exception timeout_text), 1)"
    by (simp_all add: flaky_def)
  have calls1:
    "goto (flaky 1 timeout_text) 0 (lit ''https://www.google.com'') (lit ''domcontentloaded'') 0
       = (None, 1)"
    \<open>locator_fill (flaky 1 timeout_text) 0 (lit ''textarea[name="q"]'') (lit ''cats'') 1
       = (Some (Exception timeout_text), 2)\<close>
    "wait_for_load_state (flaky 1 timeout_text) 0 (lit ''networkidle'') 0 = (None, 1)"
    "locator_inner_text (flaky 1 timeout_text) 0 (lit ''body'') 1
       = (Inl (Exception timeout_text), 2)"
    by (simp_all add: flaky_def)
  have calls2:
    "goto (flaky 2 timeout_text) 0 (lit ''https://www.google.com'') (lit ''domcontentloaded'') 0
       = (None, 1)"
    \<open>locator_fill (flaky 2 timeout_text) 0 (lit ''textarea[name="q"]'') (lit ''cats'') 1
       = (None, 2)\<close>
    "keyboard_press (flaky 2 timeout_text) 0 (lit ''Enter'') 2
       = (Some (Exception timeout_text), 3)"
    by (simp_all add: flaky_def)
  have first: "click_then_give_up [] = Act (ClickElement (lit ''#go''))"
    by (simp add: click_then_give_up_def)
  from at0 calls0 have tools0:
    "google_search (flaky 0 timeout_text) (lit ''cats'') (Some 0) 0
       = (Inr (lit ''Error during Google search: '' @ timeout_text), 1)"
    "navigate_to_url (flaky 0 timeout_text) (lit ''https://example.org/'') (Some 0) 0
       = (Inr (lit ''Error navigating to url: '' @ timeout_text), 1)"
    "type_text (flaky 0 timeout_text) (lit ''#go'') (lit ''Ada'') (Some 0) 0
       = (Inr (lit ''Error typing text: '' @ timeout_text), 1)"
    "click_element (flaky 0 timeout_text) (lit ''#go'') (Some 0) 0
       = (Inr (lit ''Error clicking element: '' @ timeout_text), 1)"
    "read_current_page_content (flaky 0 timeout_text) (Some 0) 0
       = (Inr (lit ''Could not get page content. Error: '' @ timeout_text), 1)"
    by simp_all
  from at1 calls1 have tools1:
    "google_search (flaky 1 timeout_text) (lit ''cats'') (Some 0) 0
       = (Inr (lit ''Error during Google search: '' @ timeout_text), 2)"
    "read_current_page_content (flaky 1 timeout_text) (Some 0) 0
       = (Inr (lit ''Could not get page content. Error: '' @ timeout_text), 2)"
    by simp_all
  from at2 calls2 have tools2:
    "google_search (flaky 2 timeout_text) (lit ''cats'') (Some 0) 0
       = (Inr (lit ''Error during Google search: '' @ timeout_text), 3)"
    by simp
  from tools0(4) have run: "run_tool (flaky 0 timeout_text) (ClickElement (lit ''#go'')) (Some 0) 0
       = (Inr (lit ''Error clicking element: '' @ timeout_text), 1)"
    by simp
  from at0 first run have step:
    "agent_loop 3 None click_then_give_up (flaky 0 timeout_text) (Some 0) [] 0
       = agent_loop 2 None click_then_give_up (flaky 0 timeout_text) (Some 0)
           [(ClickElement (lit ''#go''), lit ''Error clicking element: '' @ timeout_text)] 1"
    by simp
  have last: "agent_loop 2 None click_then_give_up (flaky 0 timeout_text) (Some 0)
         [(ClickElement (lit ''#go''), lit ''Error clicking element: '' @ timeout_text)] 1
     = (Inr (Done (lit ''I could not click.'')),
        [(ClickElement (lit ''#go''), lit ''Error clicking element: '' @ timeout_text)], 1)"
    by (simp add: numeral_2_eq_2 click_then_give_up_def)
  from calls0 calls1 calls2 first tools0 tools1 tools2 run step last
  show ?thesis by simp
qed

subsection \<open>The length of what \<open>read_current_page_content\<close> returns\<close>

lemma read_page_success:
  assumes "wait_for_load_state pw pg (lit ''networkidle'') d = (None, d1)"
    and "locator_inner_text pw pg (lit ''body'') d1 = (Inr content, d2)"
  shows "read_current_page_content pw (Some pg) d = (Inr (take 4000 content), d2)"
  using assms
  by (simp add: read_current_page_content_def read_current_page_content_try_def
      and_then_None except_return_Inr)

lemma read_page_failure:
  assumes "read_current_page_content_try pw pg d = (Inl e, d3)"
  shows "read_current_page_content pw (Some pg) d =
           (Inr (lit ''Could not get page content. Error: '' @ str e), d3)"
  using assms by (simp add: read_current_page_content_def except_return_Inl)

text \<open>
  Claim C3, as stated, fails: the slice \<^verbatim>\<open>content[:4000]\<close> is applied to the body text
  only. When a Playwright call raises, the tool returns the 35 characters of
  "Could not get page content. Error: " followed by the whole of \<open>str(e)\<close>; with an
  exception text of 4000 characters the observation has 4035.
\<close>

theorem read_page_long_error_counterexample:
  "read_current_page_content (broken_page (replicate 4000 120)) (Some 0) () =
     (Inr (lit ''Could not get page content. Error: '' @ replicate 4000 120), ()) \<and>
   length (lit ''Could not get page content. Error: '' @ replicate 4000 (120::nat)) = 4035"
  by (simp add: read_current_page_content_def read_current_page_content_try_def
      broken_page_def and_then_Some except_return_Inl length_lit)

text \<open>
  Claim C3, amended. With the page handle unset the tool returns "Browser is not
  running."; when the wait and the read of the body text both return, the observation is
  the first 4000 characters of the body text, so its length is at most 4000, and exactly
  4000 for a body text of 10000 characters; when the wait raises \<open>e\<close>, or the wait returns
  and the read of the body text raises \<open>e\<close>, the observation is the 35-character prefix
  followed by \<open>str(e)\<close>, not cut.
\<close>

theorem read_page_length:
  "(read_current_page_content pw None d = (Inr (lit ''Browser is not running.''), d)) \<and>
   (wait_for_load_state pw pg (lit ''networkidle'') d = (None, d1) \<and>
    locator_inner_text pw pg (lit ''body'') d1 = (Inr content, d2) \<longrightarrow>
      read_current_page_content pw (Some pg) d = (Inr (take 4000 content), d2) \<and>
      length (take 4000 content) \<le> 4000 \<and>
      (length content = 10000 \<longrightarrow> length (take 4000 content) = 4000)) \<and>
   (wait_for_load_state pw pg (lit ''networkidle'') d = (Some e, d3) \<longrightarrow>
      read_current_page_content pw (Some pg) d =
        (Inr (lit ''Could not get page content. Error: '' @ str e), d3) \<and>
      length (lit ''Could not get page content. Error: '' @ str e) = 35 + length (str e)) \<and>
   (wait_for_load_state pw pg (lit ''networkidle'') d = (None, d1) \<and>
    locator_inner_text pw pg (lit ''body'') d1 = (Inl e, d3) \<longrightarrow>
      read_current_page_content pw (Some pg) d =
        (Inr (lit ''Could not get page content. Error: '' @ str e), d3) \<and>
      length (lit ''Could not get page content. Error: '' @ str e) = 35 + length (str e))"
proof (intro conjI impI)
  show "read_current_page_content pw None d = (Inr (lit ''Browser is not running.''), d)"
    by (simp add: read_current_page_content_def not_running_def)
next
  assume "wait_for_load_state pw pg (lit ''networkidle'') d = (None, d1) \<and>
    locator_inner_text pw pg (lit ''body'') d1 = (Inr content, d2)"
  then show "read_current_page_content pw (Some pg) d = (Inr (take 4000 content), d2)"
    by (simp add: read_page_success)
  show "length (take 4000 content) \<le> 4000"
    by simp
  assume "length content = 10000"
  then show "length (take 4000 content) = 4000"
    by simp
next
  assume "wait_for_load_state pw pg (lit ''networkidle'') d = (Some e, d3)"
  then have "read_current_page_content_try pw pg d = (Inl e, d3)"
    by (simp add: read_current_page_content_try_raises)
  then show "read_current_page_content pw (Some pg) d =
        (Inr (lit ''Could not get page content. Error: '' @ str e), d3)"
    by (rule read_page_failure)
  show "length (lit ''Could not get page content. Error: '' @ str e) = 35 + length (str e)"
    by (simp add: length_lit)
next
  assume "wait_for_load_state pw pg (lit ''networkidle'') d = (None, d1) \<and>
    locator_inner_text pw pg (lit ''body'') d1 = (Inl e, d3)"
  then have "read_current_page_content_try pw pg d = (Inl e, d3)"
    by (simp add: read_current_page_content_try_raises)
  then show "read_current_page_content pw (Some pg) d =
        (Inr (lit ''Could not get page content. Error: '' @ str e), d3)"
    by (rule read_page_failure)
  show "length (lit ''Could not get page content. Error: '' @ str e) = 35 + length (str e)"
    by (simp add: length_lit)
qed

theorem read_page_length_witness:
  "wait_for_load_state big_page 0 (lit ''networkidle'') () = (None, ()) \<and>
   locator_inner_text big_page 0 (lit ''body'') () = (Inr (replicate 10000 120), ()) \<and>
   length (replicate 10000 (120::nat)) = 10000 \<and>
   read_current_page_content big_page (Some 0) () = (Inr (take 4000 (replicate 10000 120)), ()) \<and>
   length (take 4000 (replicate 10000 (120::nat))) = 4000 \<and>
   wait_for_load_state (flaky 0 timeout_text) 0 (lit ''networkidle'') 0
     = (Some (Exception timeout_text), 1) \<and>
   read_current_page_content (flaky 0 timeout_text) (Some 0) 0 =
     (Inr (lit ''Could not get page content. Error: '' @ timeout_text), 1) \<and>
   wait_for_load_state (flaky 1 timeout_text) 0 (lit ''networkidle'') 0 = (None, 1) \<and>
   locator_inner_text (flaky 1 timeout_text) 0 (lit ''body'') 1
     = (Inl (Exception timeout_text), 2) \<and>
   read_current_page_content (flaky 1 timeout_text) (Some 0) 0 =
     (Inr (lit ''Could not get page content. Error: '' @ timeout_text), 2) \<and>
   length (lit ''Could not get page content. Error: '' @ timeout_text) = 35 + length timeout_text"
proof -
  have w: "wait_for_load_state big_page 0 (lit ''networkidle'') () = (None, ())"
    by (simp add: big_page_def)
  have t: "locator_inner_text big_page 0 (lit ''body'') () = (Inr (replicate 10000 120), ())"
    by (simp add: big_page_def)
  have l: "length (replicate 10000 (120::nat)) = 10000"
    by simp
  have f0: "wait_for_load_state (flaky 0 timeout_text) 0 (lit ''networkidle'') 0
     = (Some (Exception timeout_text), 1)"
    by (simp add: flaky_def)
  have f1: "wait_for_load_state (flaky 1 timeout_text) 0 (lit ''networkidle'') 0 = (None, 1)"
    "locator_inner_text (flaky 1 timeout_text) 0 (lit ''body'') 1
       = (Inl (Exception timeout_text), 2)"
    by (simp_all add: flaky_def)
  from w t l f0 f1
    read_page_length [of big_page "()" 0 "()" "replicate 10000 120" "()"]
    read_page_length [of "flaky 0 timeout_text" 0 0 1 "[]" 0 "Exception timeout_text" 1]
    read_page_length [of "flaky 1 timeout_text" 0 0 1 "[]" 0 "Exception timeout_text" 2]
  show ?thesis by simp
qed

subsection \<open>What a successful search or navigation reports\<close>

text \<open>
  Claim C8. When the three Playwright calls of \<open>google_search\<close> return, the tool returns
  "Successfully searched for '<query>'. The results are now on the screen.", a text that
  contains the query; when the \<^verbatim>\<open>goto\<close> of \<open>navigate_to_url\<close> returns, the tool returns
  "Successfully navigated to <url>.", a text that contains the URL. Both hold for every
  query and every URL.
\<close>

theorem success_observation_names_input:
  \<open>(goto pw pg (lit ''https://www.google.com'') (lit ''domcontentloaded'') d = (None, d1) \<and>
    locator_fill pw pg (lit ''textarea[name="q"]'') query d1 = (None, d2) \<and>
    keyboard_press pw pg (lit ''Enter'') d2 = (None, d3) \<longrightarrow>
      google_search pw query (Some pg) d =
        (Inr (lit ''Successfully searched for '' @ apostrophe @ query @ apostrophe
              @ lit ''. The results are now on the screen.''), d3) \<and>
      sublist query (lit ''Successfully searched for '' @ apostrophe @ query @ apostrophe
              @ lit ''. The results are now on the screen.'')) \<and>
   (goto pw pg url (lit ''domcontentloaded'') d = (None, d4) \<longrightarrow>
      navigate_to_url pw url (Some pg) d =
        (Inr (lit ''Successfully navigated to '' @ url @ lit ''.''), d4) \<and>
      sublist url (lit ''Successfully navigated to '' @ url @ lit ''.''))\<close>
proof (intro conjI impI)
  assume \<open>goto pw pg (lit ''https://www.google.com'') (lit ''domcontentloaded'') d = (None, d1) \<and>
    locator_fill pw pg (lit ''textarea[name="q"]'') query d1 = (None, d2) \<and>
    keyboard_press pw pg (lit ''Enter'') d2 = (None, d3)\<close>
  then show "google_search pw query (Some pg) d =
        (Inr (lit ''Successfully searched for '' @ apostrophe @ query @ apostrophe
              @ lit ''. The results are now on the screen.''), d3)"
    by (simp add: google_search_def google_search_try_def and_then_None except_return_Inr)
  have "sublist query ((lit ''Successfully searched for '' @ apostrophe) @ query @
          (apostrophe @ lit ''. The results are now on the screen.''))"
    by (rule sublist_appendI)
  then show "sublist query (lit ''Successfully searched for '' @ apostrophe @ query @ apostrophe
              @ lit ''. The results are now on the screen.'')"
    by simp
next
  assume "goto pw pg url (lit ''domcontentloaded'') d = (None, d4)"
  then show "navigate_to_url pw url (Some pg) d =
        (Inr (lit ''Successfully navigated to '' @ url @ lit ''.''), d4)"
    by (simp add: navigate_to_url_def navigate_to_url_try_def and_then_None except_return_Inr)
  show "sublist url (lit ''Successfully navigated to '' @ url @ lit ''.'')"
    by (rule sublist_appendI)
qed

theorem success_observation_names_input_witness:
  \<open>goto big_page 0 (lit ''https://www.google.com'') (lit ''domcontentloaded'') () = (None, ()) \<and>
   locator_fill big_page 0 (lit ''textarea[name="q"]'') (lit ''cats'') () = (None, ()) \<and>
   keyboard_press big_page 0 (lit ''Enter'') () = (None, ()) \<and>
   google_search big_page (lit ''cats'') (Some 0) () =
     (Inr (lit ''Successfully searched for '' @ apostrophe @ lit ''cats'' @ apostrophe
           @ lit ''. The results are now on the screen.''), ()) \<and>
   sublist (lit ''cats'') (lit ''Successfully searched for '' @ apostrophe @ lit ''cats'' @ apostrophe
           @ lit ''. The results are now on the screen.'') \<and>
   goto big_page 0 (lit ''https://example.org/'') (lit ''domcontentloaded'') () = (None, ()) \<and>
   navigate_to_url big_page (lit ''https://example.org/'') (Some 0) () =
     (Inr (lit ''Successfully navigated to '' @ lit ''https://example.org/'' @ lit ''.''), ()) \<and>
   sublist (lit ''https://example.org/'')
     (lit ''Successfully navigated to '' @ lit ''https://example.org/'' @ lit ''.'')\<close>
proof -
  have g: "\<And>url. goto big_page 0 url (lit ''domcontentloaded'') () = (None, ())"
    by (simp add: big_page_def)
  have f: \<open>locator_fill big_page 0 (lit ''textarea[name="q"]'') (lit ''cats'') () = (None, ())\<close>
    by (simp add: big_page_def)
  have k: "keyboard_press big_page 0 (lit ''Enter'') () = (None, ())"
    by (simp add: big_page_def)
  from g f k
    success_observation_names_input [of big_page 0 "()" "()" "lit ''cats''" "()" "()"
      "lit ''https://example.org/''" "()"]
  show ?thesis by simp
qed

section \<open>Results about the entry point\<close>

lemmas run_defs = execute_task_def try_block_def launch_browser_def fate_def finally_block_def
  is_connected_def close_def disconnect_def calm_def agent_raises_def context_fails_def
  window_closed_def initial_world_def lit_def

lemma try_block_launch_fails:
  "launch ev = Some e \<Longrightarrow> try_block ev task w = (Inl e, None, w)"
  by (simp add: try_block_def)

lemma try_block_launched:
  assumes "launch ev = None"
  shows "\<exists>r w1. try_block ev task w = (r, Some (length (browsers w)), w1) \<and>
           browsers w1 = browsers w @ [\<lparr>connected = True, close_calls = 0\<rparr>] \<and>
           (page w1 = page w \<or> page w1 = Some (length (browsers w)))"
  using assms
  by (auto simp: try_block_def launch_browser_def Let_def split: option.splits)

lemma wind_down:
  assumes "browsers w1 = browsers w @ [\<lparr>connected = True, close_calls = 0\<rparr>]"
  shows "browsers (finally_block (Some (length (browsers w))) (fate ev (Some (length (browsers w))) w1))
           = browsers w @ [closed_browser ev]"
    and "page (finally_block (Some (length (browsers w))) (fate ev (Some (length (browsers w))) w1))
           = page w1"
  using assms
  by (simp_all add: finally_block_def fate_def is_connected_def close_def disconnect_def
      closed_browser_def)

lemma execute_task_launched:
  assumes "dict_get data (lit ''task'') = Inr task" and "truthy task"
    and "playwright_start ev = None" and "launch ev = None"
  shows "browsers (snd (execute_task ev (Inr data) w)) = browsers w @ [closed_browser ev]"
    and "\<exists>body status. fst (execute_task ev (Inr data) w) = Response body status"
proof -
  from try_block_launched [OF assms(4), of task w] obtain r w1 where
    tb: "try_block ev task w = (r, Some (length (browsers w)), w1)"
    and br: "browsers w1 = browsers w @ [\<lparr>connected = True, close_calls = 0\<rparr>]"
    by blast
  from assms tb wind_down(1) [OF br, of ev]
  show "browsers (snd (execute_task ev (Inr data) w)) = browsers w @ [closed_browser ev]"
    by (cases r) (simp_all add: execute_task_def Let_def)
  from assms tb
  show "\<exists>body status. fst (execute_task ev (Inr data) w) = Response body status"
    by (cases r) (simp_all add: execute_task_def Let_def)
qed

text \<open>
  One task either leaves the world as it is, or adds one browser, which it leaves
  disconnected, and keeps the page handle or points it at that browser's page.
\<close>

lemma execute_task_world:
  "snd (execute_task ev rq w) = w \<or>
   (browsers (snd (execute_task ev rq w)) = browsers w @ [closed_browser ev] \<and>
    (page (snd (execute_task ev rq w)) = page w \<or>
     page (snd (execute_task ev rq w)) = Some (length (browsers w))))"
proof (cases "launch ev")
  case None
  show ?thesis
  proof (cases rq)
    case (Inl e)
    then show ?thesis by (simp add: execute_task_def)
  next
    case (Inr data)
    show ?thesis
    proof (cases "dict_get data (lit ''task'')")
      case (Inl e)
      with Inr show ?thesis by (simp add: execute_task_def)
    next
      case task: (Inr task)
      from try_block_launched [OF None, of task w] obtain r w1 where
        tb: "try_block ev task w = (r, Some (length (browsers w)), w1)"
        and br: "browsers w1 = browsers w @ [\<lparr>connected = True, close_calls = 0\<rparr>]"
        and pg: "page w1 = page w \<or> page w1 = Some (length (browsers w))"
        by blast
      from Inr task tb wind_down [OF br, of ev] pg show ?thesis
        by (cases r; cases "playwright_start ev") (auto simp: execute_task_def Let_def)
    qed
  qed
next
  case (Some e)
  then show ?thesis
    by (auto simp: execute_task_def try_block_launch_fails finally_block_def fate_def Let_def
        split: sum.splits option.splits)
qed

subsection \<open>A request without a task\<close>

lemma falsy_task_rejected:
  assumes "dict_get data (lit ''task'') = Inr task" and "\<not> truthy task"
  shows "execute_task ev (Inr data) w =
           (Response (JObj [(lit ''error'', JStr (lit ''No task provided''))]) 400, w)"
  using assms by (simp add: execute_task_def)

text \<open>
  The setup is reached only with a truthy task: a request whose JSON cannot be read, is
  not an object, or carries a falsy \<open>task\<close> leaves the world as it is.
\<close>

lemma setup_needs_task:
  assumes "\<And>data task. rq = Inr data \<Longrightarrow> dict_get data (lit ''task'') = Inr task \<Longrightarrow> \<not> truthy task"
  shows "snd (execute_task ev rq w) = w"
proof (cases rq)
  case (Inl e)
  then show ?thesis by (simp add: execute_task_def)
next
  case (Inr data)
  show ?thesis
  proof (cases "dict_get data (lit ''task'')")
    case (Inl e)
    with Inr show ?thesis by (simp add: execute_task_def)
  next
    case task: (Inr task)
    with Inr assms have "\<not> truthy task" by blast
    with Inr task show ?thesis by (simp add: execute_task_def)
  qed
qed

text \<open>
  Claim C9. When the JSON object of the request has no \<open>task\<close> entry, or its \<open>task\<close> is the
  empty string, the entry point answers \<open>{"error": "No task provided"}\<close> with status 400
  and the world is the one it started from: no browser was launched, the executor was not
  entered, and the global page handle is what it was.
\<close>

theorem no_task_rejected_before_setup:
  assumes "map_of kvs (lit ''task'') = None \<or> map_of kvs (lit ''task'') = Some (JStr [])"
  shows "execute_task ev (Inr (JObj kvs)) w =
           (Response (JObj [(lit ''error'', JStr (lit ''No task provided''))]) 400, w) \<and>
         browsers (snd (execute_task ev (Inr (JObj kvs)) w)) = browsers w \<and>
         invoke_calls (snd (execute_task ev (Inr (JObj kvs)) w)) = invoke_calls w \<and>
         page (snd (execute_task ev (Inr (JObj kvs)) w)) = page w"
  using assms by (auto simp: execute_task_def)

theorem no_task_rejected_before_setup_witness:
  "map_of [] (lit ''task'') = (None :: json option) \<and>
   execute_task (calm (lit ''done'')) (Inr (JObj [])) initial_world =
     (Response (JObj [(lit ''error'', JStr (lit ''No task provided''))]) 400, initial_world) \<and>
   map_of [(lit ''task'', JStr [])] (lit ''task'') = Some (JStr []) \<and>
   execute_task (calm (lit ''done'')) (Inr (JObj [(lit ''task'', JStr [])])) initial_world =
     (Response (JObj [(lit ''error'', JStr (lit ''No task provided''))]) 400, initial_world)"
  using no_task_rejected_before_setup [of "[]" "calm (lit ''done'')" initial_world]
    no_task_rejected_before_setup [of "[(lit ''task'', JStr [])]" "calm (lit ''done'')" initial_world]
  by simp

subsection \<open>Closing the browser\<close>

text \<open>
  Claim C2, as stated, fails: the \<^verbatim>\<open>finally\<close> clause calls \<^verbatim>\<open>browser.close()\<close> only when
  \<^verbatim>\<open>browser.is_connected()\<close> holds. In a task during which the browser window is closed,
  the agent answers, the entry point returns the result with status 200, and the spy has
  recorded no call of \<^verbatim>\<open>close\<close>.
\<close>

theorem no_close_call_after_disconnect_counterexample:
  "execute_task (window_closed (lit ''done''))
     (Inr (JObj [(lit ''task'', JStr (lit ''find cats''))])) initial_world =
   (Response (JObj [(lit ''result'', JStr (lit ''done''))]) 200,
    \<lparr>page = Some 0, browsers = [\<lparr>connected = False, close_calls = 0\<rparr>], invoke_calls = 1\<rparr>)"
  by (simp add: run_defs)

text \<open>
  Claim C2, amended. Once the browser is launched, on every exit path of the task (the
  agent answered, the agent's call raised, or a later setup step raised) the entry point
  returns a response, and the task's browser, the last one launched, is then not
  connected; \<^verbatim>\<open>close\<close> was called on it exactly once when it was still connected in the
  \<^verbatim>\<open>finally\<close> clause, and not at all when it had disconnected before. The browsers of
  earlier tasks are not touched.
\<close>

theorem browser_closed_on_every_exit:
  assumes "dict_get data (lit ''task'') = Inr task" and "truthy task"
    and "playwright_start ev = None" and "launch ev = None"
  shows "browsers (snd (execute_task ev (Inr data) w)) =
           browsers w @ [\<lparr>connected = False, close_calls = (if crashed ev then 0 else 1)\<rparr>] \<and>
         (\<exists>body status. fst (execute_task ev (Inr data) w) = Response body status)"
  using execute_task_launched [OF assms, of w] by (simp add: closed_browser_def)

theorem browser_closed_on_every_exit_witness:
  "dict_get (JObj [(lit ''task'', JStr (lit ''find cats''))]) (lit ''task'')
     = Inr (JStr (lit ''find cats'')) \<and>
   truthy (JStr (lit ''find cats'')) \<and>
   playwright_start (calm (lit ''done'')) = None \<and> launch (calm (lit ''done'')) = None \<and>
   playwright_start (agent_raises (lit ''rate limit'')) = None \<and>
   launch (agent_raises (lit ''rate limit'')) = None \<and>
   playwright_start (context_fails (lit ''no display'')) = None \<and>
   launch (context_fails (lit ''no display'')) = None \<and>
   browsers (snd (execute_task (calm (lit ''done''))
     (Inr (JObj [(lit ''task'', JStr (lit ''find cats''))])) initial_world))
     = [\<lparr>connected = False, close_calls = 1\<rparr>] \<and>
   browsers (snd (execute_task (agent_raises (lit ''rate limit''))
     (Inr (JObj [(lit ''task'', JStr (lit ''find cats''))])) initial_world))
     = [\<lparr>connected = False, close_calls = 1\<rparr>] \<and>
   browsers (snd (execute_task (context_fails (lit ''no display''))
     (Inr (JObj [(lit ''task'', JStr (lit ''find cats''))])) initial_world))
     = [\<lparr>connected = False, close_calls = 1\<rparr>]"
proof -
  have t: "dict_get (JObj [(lit ''task'', JStr (lit ''find cats''))]) (lit ''task'')
     = Inr (JStr (lit ''find cats''))"
    by simp
  have y: "truthy (JStr (lit ''find cats''))"
    by (simp add: lit_def)
  have c: "playwright_start (calm (lit ''done'')) = None" "launch (calm (lit ''done'')) = None"
    "crashed (calm (lit ''done'')) = False"
    by (simp_all add: calm_def)
  have a: "playwright_start (agent_raises (lit ''rate limit'')) = None"
    "launch (agent_raises (lit ''rate limit'')) = None"
    "crashed (agent_raises (lit ''rate limit'')) = False"
    by (simp_all add: agent_raises_def calm_def)
  have f: "playwright_start (context_fails (lit ''no display'')) = None"
    "launch (context_fails (lit ''no display'')) = None"
    "crashed (context_fails (lit ''no display'')) = False"
    by (simp_all add: context_fails_def calm_def)
  have b: "browsers initial_world = []"
    by (simp add: initial_world_def)
  from t y c a f b
    browser_closed_on_every_exit [OF t y c(1) c(2), of initial_world]
    browser_closed_on_every_exit [OF t y a(1) a(2), of initial_world]
    browser_closed_on_every_exit [OF t y f(1) f(2), of initial_world]
  show ?thesis by simp
qed

subsection \<open>The page handle after a task\<close>

lemma page_kept: "page w \<noteq> None \<Longrightarrow> page (snd (execute_task ev rq w)) \<noteq> None"
  using execute_task_world [of ev rq w] by auto

lemma settled_kept: "settled w \<Longrightarrow> settled (snd (execute_task ev rq w))"
  using execute_task_world [of ev rq w]
  by (auto simp: settled_def closed_browser_def split: option.splits)

lemma settled_initial: "settled initial_world"
  by (simp add: settled_def initial_world_def)

lemma run_tasks_append: "run_tasks (ts @ ts') w = run_tasks ts' (run_tasks ts w)"
  by (induction ts arbitrary: w) auto

lemma run_tasks_page_kept: "page w \<noteq> None \<Longrightarrow> page (run_tasks ts w) \<noteq> None"
proof (induction ts arbitrary: w)
  case Nil
  then show ?case by simp
next
  case (Cons t ts)
  obtain ev rq where t: "t = (ev, rq)"
    by (cases t)
  from Cons.prems have "page (snd (execute_task ev rq w)) \<noteq> None"
    by (rule page_kept)
  then have "page (run_tasks ts (snd (execute_task ev rq w))) \<noteq> None"
    by (rule Cons.IH)
  with t show ?case by simp
qed

lemma run_tasks_settled: "settled w \<Longrightarrow> settled (run_tasks ts w)"
  by (induction ts arbitrary: w) (auto simp: settled_kept)

lemma settled_page:
  assumes "settled w" and "page w = Some b"
  shows "b < length (browsers w) \<and> \<not> connected (browsers w ! b)"
  using assms by (auto simp: settled_def list_all_length)

text \<open>
  Claim C10. Before any task the page handle is unset and every tool returns "Browser is
  not running.". Once some sequence of tasks \<open>ts\<close> has set the handle, then after any
  further tasks \<open>ts'\<close> it is still set (nothing resets it), it is the page of a browser that
  is no longer connected, and every tool skips the guard and runs its \<^verbatim>\<open>try\<close> block on
  that page.
\<close>

theorem page_handle_goes_stale:
  assumes "page (run_tasks ts initial_world) \<noteq> None"
  shows "run_tool pw c (page initial_world) d = (Inr (lit ''Browser is not running.''), d) \<and>
         (\<exists>b. page (run_tasks (ts @ ts') initial_world) = Some b \<and>
              b < length (browsers (run_tasks (ts @ ts') initial_world)) \<and>
              \<not> connected (browsers (run_tasks (ts @ ts') initial_world) ! b) \<and>
              run_tool pw c (page (run_tasks (ts @ ts') initial_world)) d =
                except_return (tool_try pw c b d) (error_prefix c))"
proof
  show "run_tool pw c (page initial_world) d = (Inr (lit ''Browser is not running.''), d)"
    by (simp add: initial_world_def run_tool_unset not_running_def)
next
  let ?w = "run_tasks (ts @ ts') initial_world"
  from assms have "page ?w \<noteq> None"
    by (simp add: run_tasks_append run_tasks_page_kept)
  then obtain b where b: "page ?w = Some b"
    by blast
  have "settled ?w"
    by (simp add: run_tasks_settled settled_initial)
  then have "b < length (browsers ?w) \<and> \<not> connected (browsers ?w ! b)"
    using b by (rule settled_page)
  moreover have "run_tool pw c (page ?w) d = except_return (tool_try pw c b d) (error_prefix c)"
    by (simp add: b run_tool_set)
  ultimately show "\<exists>b. page ?w = Some b \<and> b < length (browsers ?w) \<and>
      \<not> connected (browsers ?w ! b) \<and>
      run_tool pw c (page ?w) d = except_return (tool_try pw c b d) (error_prefix c)"
    using b by blast
qed

theorem page_handle_goes_stale_witness:
  "page (run_tasks [(calm (lit ''done''), Inr (JObj [(lit ''task'', JStr (lit ''find cats''))]))]
     initial_world) \<noteq> None \<and>
   page (run_tasks ([(calm (lit ''done''), Inr (JObj [(lit ''task'', JStr (lit ''find cats''))]))]
     @ [(calm (lit ''done''), Inr (JObj []))]) initial_world) = Some 0 \<and>
   \<not> connected (browsers (run_tasks
     ([(calm (lit ''done''), Inr (JObj [(lit ''task'', JStr (lit ''find cats''))]))]
     @ [(calm (lit ''done''), Inr (JObj []))]) initial_world) ! 0) \<and>
   run_tool big_page (ClickElement (lit ''#go''))
     (page (run_tasks ([(calm (lit ''done''), Inr (JObj [(lit ''task'', JStr (lit ''find cats''))]))]
     @ [(calm (lit ''done''), Inr (JObj []))]) initial_world)) ()
     = (Inr (lit ''Successfully clicked the element.''), ())"
proof -
  have s: "page (run_tasks [(calm (lit ''done''), Inr (JObj [(lit ''task'', JStr (lit ''find cats''))]))]
     initial_world) \<noteq> None"
    by (simp add: run_defs)
  have r: "run_tasks ([(calm (lit ''done''), Inr (JObj [(lit ''task'', JStr (lit ''find cats''))]))]
     @ [(calm (lit ''done''), Inr (JObj []))]) initial_world
     = \<lparr>page = Some 0, browsers = [\<lparr>connected = False, close_calls = 1\<rparr>], invoke_calls = 1\<rparr>"
    by (simp add: run_defs)
  have k: "except_return (tool_try big_page (ClickElement (lit ''#go'')) 0 ()) (error_prefix (ClickElement (lit ''#go'')))
     = (Inr (lit ''Successfully clicked the element.''), ())"
    by (simp add: click_element_try_def big_page_def and_then_None except_return_Inr)
  from s k
    page_handle_goes_stale [OF s, of big_page "ClickElement (lit ''#go'')" "()"
      "[(calm (lit ''done''), Inr (JObj []))]"]
  show ?thesis unfolding r by simp
qed

end
